theory Spec2Isabelle
  imports Main
begin

section \<open>Data model\<close>

text \<open>
  \<^verbatim>\<open>JwtPayload\<close> (users/interfaces/jwt-payload.interface.ts): the identity carried by a
  token. The field \<^verbatim>\<open>id\<close> is named \<open>user_id\<close> here, since \<open>id\<close> is the identity function
  of HOL. Optional fields (\<^verbatim>\<open>string | null | undefined\<close>) are \<open>string option\<close>.

  TypeScript types are structural: the decoded claims of a token and a stored user are
  both objects that have the four fields of \<^verbatim>\<open>JwtPayload\<close> plus fields of their own. The
  records below are extensions of \<open>jwt_payload\<close> for that reason, and a function that the
  source types with \<^verbatim>\<open>JwtPayload\<close> takes any extension of it.
\<close>

record jwt_payload =
  user_id :: string
  email :: string
  first_name :: "string option"
  last_name :: "string option"

text \<open>The decoded claims of a signed token: the payload, \<^verbatim>\<open>iat\<close> and \<^verbatim>\<open>exp\<close> (seconds).\<close>

record jwt_claims = jwt_payload +
  iat :: nat
  exp :: nat

text \<open>
  A stored user: the fields \<^verbatim>\<open>registerUser\<close> passes to \<^verbatim>\<open>prisma.user.create\<close>, and the
  identifier the store generates. \<open>password\<close> holds the bcrypt hash.
\<close>

record user = jwt_payload +
  password :: string

text \<open>
  \<^verbatim>\<open>const { password, ...userWithoutPassword } = user\<close>: the object with every field of
  the user but \<^verbatim>\<open>password\<close>.
\<close>

definition userWithoutPassword :: "user \<Rightarrow> jwt_payload" where
  "userWithoutPassword u =
     \<lparr>user_id = user_id u, email = email u, first_name = first_name u,
      last_name = last_name u\<rparr>"

subsection \<open>Errors\<close>

datatype http_status =
  BAD_REQUEST | UNAUTHORIZED | NOT_FOUND | CONFLICT | INTERNAL_SERVER_ERROR

fun status_code :: "http_status \<Rightarrow> nat" where
  "status_code BAD_REQUEST = 400"
| "status_code UNAUTHORIZED = 401"
| "status_code NOT_FOUND = 404"
| "status_code CONFLICT = 409"
| "status_code INTERNAL_SERVER_ERROR = 500"

text \<open>
  The first argument of \<^verbatim>\<open>new HttpException(response, status)\<close> is an object
  \<^verbatim>\<open>{ message: m }\<close> or a string.
\<close>

datatype exception_response = Message string | Text string

datatype http_exception = HttpException exception_response http_status

fun getStatus :: "http_exception \<Rightarrow> http_status" where
  "getStatus (HttpException r s) = s"

fun getResponse :: "http_exception \<Rightarrow> exception_response" where
  "getResponse (HttpException r s) = r"

text \<open>
  \<^verbatim>\<open>HttpException.message\<close>: the string itself, or the \<^verbatim>\<open>message\<close> field of the object.
\<close>

fun exception_message :: "http_exception \<Rightarrow> string" where
  "exception_message (HttpException (Message m) s) = m"
| "exception_message (HttpException (Text m) s) = m"

text \<open>\<^verbatim>\<open>new UnauthorizedException(m)\<close>: an \<^verbatim>\<open>HttpException\<close> of status 401.\<close>

definition UnauthorizedException :: "string \<Rightarrow> http_exception" where
  "UnauthorizedException m = HttpException (Message m) UNAUTHORIZED"

text \<open>
  An error of the Prisma client: a \<^verbatim>\<open>PrismaClientKnownRequestError\<close> with its code and
  message, or any other error of the client (a lost connection, a panic of the engine).
\<close>

datatype prisma_error =
    PrismaClientKnownRequestError string string
  | PrismaClientError string

text \<open>
  What a \<^verbatim>\<open>try\<close> block of \<^verbatim>\<open>UsersService\<close> can throw: an error of the Prisma client, an
  \<^verbatim>\<open>HttpException\<close> that the block throws itself, or any other \<^verbatim>\<open>Error\<close>, with its message,
  thrown by a call the block makes (the logger, the audit helper).
\<close>

datatype js_error = Prisma prisma_error | HttpError http_exception | Error string

fun error_message :: "js_error \<Rightarrow> string" where
  "error_message (Prisma (PrismaClientKnownRequestError c m)) = m"
| "error_message (Prisma (PrismaClientError m)) = m"
| "error_message (HttpError e) = exception_message e"
| "error_message (Error m) = m"

section \<open>Signed tokens\<close>

text \<open>
  A cookie value is a string. \<^verbatim>\<open>jsonwebtoken\<close> first parses it: either it is not of
  the form header.payload.signature (\<open>Malformed\<close>, with the string), or it decodes to claims
  and a signature (\<open>Jwt\<close>). The model works on the parsed form.
\<close>

datatype token = Malformed string | Jwt jwt_claims string

datatype jwt_error = JsonWebTokenError string | TokenExpiredError

text \<open>
  What the environment of a request fixes: the secret (\<^verbatim>\<open>JWT_SECRET\<close>, which
  config/envs.ts requires at start-up), the clock in seconds, the keyed hash of the
  signature algorithm (a parameter: nothing below depends on which function it is), the
  password hash of \<^verbatim>\<open>bcrypt\<close>, the identifier the store gives the next record it creates,
  a fault of the store (\<open>Some e\<close>: every call to the store throws \<open>e\<close>), and the lifetime
  of a refresh token.
\<close>

record env =
  jwt_secret :: string
  now :: nat
  hmac :: "string \<Rightarrow> jwt_claims \<Rightarrow> string"
  bcrypt_hash :: "string \<Rightarrow> string"
  new_id :: string
  db_fault :: "prisma_error option"
  refresh_expiresIn :: nat

text \<open>\<^verbatim>\<open>signOptions: { expiresIn: '15m' }\<close> of \<^verbatim>\<open>JwtModule.register\<close>, in seconds.\<close>

definition expiresIn :: nat where
  "expiresIn = 15 * 60"

text \<open>
  \<^verbatim>\<open>jwtService.sign(payload, { expiresIn })\<close>: the claims are the payload with the time of
  issue and the expiry, signed with the secret.
\<close>

definition sign :: "env \<Rightarrow> nat \<Rightarrow> 'a jwt_payload_scheme \<Rightarrow> token" where
  "sign e ttl p =
     (let claims = \<lparr>user_id = user_id p, email = email p, first_name = first_name p,
                     last_name = last_name p, iat = now e, exp = now e + ttl\<rparr>
      in Jwt claims (hmac e (jwt_secret e) claims))"

text \<open>
  \<^verbatim>\<open>jwtService.verifyAsync(token)\<close> (\<^verbatim>\<open>ignoreExpiration: false\<close>): the signature is checked
  first, then the expiry; a token is expired from the instant \<^verbatim>\<open>exp\<close> on.
\<close>

fun verifyAsync :: "env \<Rightarrow> token \<Rightarrow> jwt_error + jwt_claims" where
  "verifyAsync e (Malformed s) = Inl (JsonWebTokenError ''jwt malformed'')"
| "verifyAsync e (Jwt claims sg) =
     (if sg \<noteq> hmac e (jwt_secret e) claims then Inl (JsonWebTokenError ''invalid signature'')
      else if exp claims \<le> now e then Inl TokenExpiredError
      else Inr claims)"

section \<open>AuthGuard\<close>

text \<open>
  A request, as the guard reads it: \<^verbatim>\<open>request.cookies\<close> (absent when no cookie parser
  ran), a map from cookie names to values.
\<close>

record request =
  cookies :: "(string \<rightharpoonup> token) option"

text \<open>\<^verbatim>\<open>request.cookies?.access_token\<close>\<close>

definition access_token :: "request \<Rightarrow> token option" where
  "access_token request =
     (case cookies request of None \<Rightarrow> None | Some cs \<Rightarrow> cs ''access_token'')"

text \<open>\<^verbatim>\<open>!token\<close>: the cookie is absent or the empty string.\<close>

fun falsy :: "token option \<Rightarrow> bool" where
  "falsy None = True"
| "falsy (Some (Malformed s)) = (s = [])"
| "falsy (Some (Jwt c sg)) = False"

text \<open>
  \<^verbatim>\<open>AuthGuard.canActivate\<close>. \<open>Inr payload\<close> stands for \<^verbatim>\<open>request.user = payload; return true\<close>:
  the payload is what the guard attaches to the request.
\<close>

definition canActivate :: "env \<Rightarrow> request \<Rightarrow> http_exception + jwt_claims" where
  "canActivate e request =
     (let token = access_token request in
      if falsy token then Inl (UnauthorizedException ''Access token not found'')
      else (case token of
              None \<Rightarrow> Inl (UnauthorizedException ''Access token not found'')
            | Some t \<Rightarrow>
                (case verifyAsync e t of
                   Inr payload \<Rightarrow> Inr payload
                 | Inl error \<Rightarrow> Inl (UnauthorizedException ''Invalid or expired token''))))"

section \<open>The world a request runs in\<close>

text \<open>
  A subscriber of the notification hub: its handle, whether its connection still accepts
  a message, and the messages delivered to it so far, oldest first.
\<close>

record subscriber =
  handle :: nat
  writable :: bool
  inbox :: "string list"

text \<open>
  The effects of a request, in the order they happen: a call to the record store that
  completed (with the name of the Prisma operation), a line written to the durable log, a
  line the log sink failed to take, and a call of the hub's broadcast.
\<close>

datatype effect = Store string | LogLine string | LogFailure string | Broadcast string

record world =
  users :: "user list"
  sink_ok :: bool
  subscribers :: "subscriber list"
  trace :: "effect list"

definition emit :: "effect \<Rightarrow> world \<Rightarrow> world" where
  "emit x w = w\<lparr>trace := trace w @ [x]\<rparr>"

subsection \<open>The record store (Prisma client)\<close>

text \<open>
  The store is the list of users, in the order \<^verbatim>\<open>findMany\<close> returns them. A call fails
  with the fault of the environment when there is one. \<^verbatim>\<open>findUnique\<close> returns null for
  an absent record; \<^verbatim>\<open>update\<close> and \<^verbatim>\<open>delete\<close> throw the known request error P2025 for
  one; \<^verbatim>\<open>create\<close> and \<^verbatim>\<open>update\<close> throw P2002 when the email is taken. That the email is
  unique is what \<^verbatim>\<open>registerUser\<close> says of P2002 (the Prisma schema is not among the
  sources). A call that fails leaves the store as it was.
\<close>

definition record_not_found :: prisma_error where
  "record_not_found =
     PrismaClientKnownRequestError ''P2025''
       ''An operation failed because it depends on one or more records that were required but not found.''"

definition unique_constraint_failed :: prisma_error where
  "unique_constraint_failed =
     PrismaClientKnownRequestError ''P2002'' ''Unique constraint failed on the fields: (`email`)''"

definition prisma_user_findMany :: "env \<Rightarrow> world \<Rightarrow> (prisma_error + user list) \<times> world" where
  "prisma_user_findMany e w =
     (case db_fault e of
        Some err \<Rightarrow> (Inl err, w)
      | None \<Rightarrow> (Inr (users w), emit (Store ''findMany'') w))"

definition prisma_user_findUnique ::
  "env \<Rightarrow> (user \<Rightarrow> bool) \<Rightarrow> world \<Rightarrow> (prisma_error + user option) \<times> world" where
  "prisma_user_findUnique e wh w =
     (case db_fault e of
        Some err \<Rightarrow> (Inl err, w)
      | None \<Rightarrow> (Inr (find wh (users w)), emit (Store ''findUnique'') w))"

definition prisma_user_delete ::
  "env \<Rightarrow> string \<Rightarrow> world \<Rightarrow> (prisma_error + user option) \<times> world" where
  "prisma_user_delete e i w =
     (case db_fault e of
        Some err \<Rightarrow> (Inl err, w)
      | None \<Rightarrow>
          (case find (\<lambda>u. user_id u = i) (users w) of
             None \<Rightarrow> (Inl record_not_found, w)
           | Some u \<Rightarrow>
               (Inr (Some u),
                emit (Store ''delete'') (w\<lparr>users := filter (\<lambda>u. user_id u \<noteq> i) (users w)\<rparr>))))"

text \<open>\<^verbatim>\<open>UpdateUserDto\<close>: every field is optional; an absent field leaves the record's as it is.\<close>

record update_user_dto =
  upd_first_name :: "string option"
  upd_last_name :: "string option"
  upd_email :: "string option"

definition apply_update :: "update_user_dto \<Rightarrow> user \<Rightarrow> user" where
  "apply_update d u =
     u\<lparr>email := (case upd_email d of None \<Rightarrow> email u | Some x \<Rightarrow> x),
       first_name := (case upd_first_name d of None \<Rightarrow> first_name u | Some x \<Rightarrow> Some x),
       last_name := (case upd_last_name d of None \<Rightarrow> last_name u | Some x \<Rightarrow> Some x)\<rparr>"

definition email_taken :: "string \<Rightarrow> string option \<Rightarrow> user list \<Rightarrow> bool" where
  "email_taken i new_email us =
     (case new_email of
        None \<Rightarrow> False
      | Some x \<Rightarrow> list_ex (\<lambda>u. user_id u \<noteq> i \<and> email u = x) us)"

definition prisma_user_update ::
  "env \<Rightarrow> string \<Rightarrow> update_user_dto \<Rightarrow> world \<Rightarrow> (prisma_error + user option) \<times> world" where
  "prisma_user_update e i d w =
     (case db_fault e of
        Some err \<Rightarrow> (Inl err, w)
      | None \<Rightarrow>
          (case find (\<lambda>u. user_id u = i) (users w) of
             None \<Rightarrow> (Inl record_not_found, w)
           | Some u \<Rightarrow>
               if email_taken i (upd_email d) (users w) then (Inl unique_constraint_failed, w)
               else (Inr (Some (apply_update d u)),
                     emit (Store ''update'')
                       (w\<lparr>users := map (\<lambda>u. if user_id u = i then apply_update d u else u)
                                      (users w)\<rparr>))))"

text \<open>The \<^verbatim>\<open>data\<close> of \<^verbatim>\<open>prisma.user.create\<close>: a user without its identifier.\<close>

record create_data =
  data_email :: string
  data_password :: string
  data_first_name :: "string option"
  data_last_name :: "string option"

definition prisma_user_create ::
  "env \<Rightarrow> create_data \<Rightarrow> world \<Rightarrow> (prisma_error + user) \<times> world" where
  "prisma_user_create e d w =
     (case db_fault e of
        Some err \<Rightarrow> (Inl err, w)
      | None \<Rightarrow>
          if list_ex (\<lambda>u. email u = data_email d) (users w) then (Inl unique_constraint_failed, w)
          else (let newUser = \<lparr>user_id = new_id e, email = data_email d,
                                first_name = data_first_name d, last_name = data_last_name d,
                                password = data_password d\<rparr>
                in (Inr newUser, emit (Store ''create'') (w\<lparr>users := users w @ [newUser]\<rparr>))))"

subsection \<open>Logger, notification hub, audit helper\<close>

text \<open>
  A call of the logger or of the audit helper returns nothing; like a call of the store,
  it is modelled with what it throws (\<open>Inl\<close>) or that it returned (\<open>Inr ()\<close>), and the world
  it leaves.

  Modelled from the spec: the options of the Winston logger (common/utils/logger.config.ts)
  are not among the sources. Section 4.3: the durable sink takes a line or fails
  (\<open>sink_write\<close>, which throws when the sink does not take the line);
  \<^verbatim>\<open>logger.info(message)\<close> appends the line to the sink, and a write that fails is caught
  and reported at a lower fidelity (\<open>LogFailure\<close>), not propagated to the caller.
\<close>

definition sink_write :: "string \<Rightarrow> world \<Rightarrow> (js_error + unit) \<times> world" where
  "sink_write m w =
     (if sink_ok w then (Inr (), emit (LogLine m) w)
      else (Inl (Error ''write to the log sink failed''), w))"

definition logger_info :: "string \<Rightarrow> world \<Rightarrow> (js_error + unit) \<times> world" where
  "logger_info m w =
     (case sink_write m w of
        (Inr _, w1) \<Rightarrow> (Inr (), w1)
      | (Inl error, w1) \<Rightarrow> (Inr (), emit (LogFailure m) w1))"

text \<open>
  Modelled from the spec: \<^verbatim>\<open>WSGateway\<close> (websockets/websocket.gateway.ts) is not among the
  sources. Section 4.4: the delivery to one subscriber fails when its connection does not
  accept the message (\<open>deliver\<close>); \<^verbatim>\<open>broadcast(message)\<close> delivers the message to every
  registered subscriber in turn, a subscriber whose delivery fails is dropped from the
  registry, and the call itself does not fail.
\<close>

definition deliver :: "string \<Rightarrow> subscriber \<Rightarrow> js_error + subscriber" where
  "deliver m s =
     (if writable s then Inr (s\<lparr>inbox := inbox s @ [m]\<rparr>)
      else Inl (Error ''the subscriber does not accept the message''))"

fun deliver_all :: "string \<Rightarrow> subscriber list \<Rightarrow> subscriber list" where
  "deliver_all m [] = []"
| "deliver_all m (s # ss) =
     (case deliver m s of
        Inr s' \<Rightarrow> s' # deliver_all m ss
      | Inl error \<Rightarrow> deliver_all m ss)"

definition broadcast :: "string \<Rightarrow> world \<Rightarrow> (js_error + unit) \<times> world" where
  "broadcast m w =
     (Inr (), emit (Broadcast m) (w\<lparr>subscribers := deliver_all m (subscribers w)\<rparr>))"

text \<open>
  Modelled from the spec: \<^verbatim>\<open>LogNotifyHelper.logOperation\<close> (common/utils/log-notify.helper.ts)
  is not among the sources. Section 4.3, for an operation other than \<^verbatim>\<open>view\<close>: the summary
  is appended to the durable log, a failure of the sink being contained, and the same
  summary is forwarded to the hub for broadcast.
\<close>

definition logOperation :: "string \<Rightarrow> world \<Rightarrow> (js_error + unit) \<times> world" where
  "logOperation m w =
     (case logger_info m w of
        (Inl error, w1) \<Rightarrow> (Inl error, w1)
      | (Inr _, w1) \<Rightarrow> broadcast m w1)"

subsection \<open>The response and its cookies\<close>

text \<open>
  A \<^verbatim>\<open>Set-Cookie\<close> header of the response: \<^verbatim>\<open>res.cookie(name, value, options)\<close> with its
  \<^verbatim>\<open>httpOnly\<close> and \<^verbatim>\<open>secure\<close> options, or \<^verbatim>\<open>res.clearCookie(name)\<close>.
\<close>

datatype cookie = Cookie string token bool bool | ClearCookie string

record response =
  set_cookie :: "cookie list"
  status :: "nat option"
  body :: "string option"

definition res_cookie :: "string \<Rightarrow> token \<Rightarrow> response \<Rightarrow> response" where
  "res_cookie name v res = res\<lparr>set_cookie := set_cookie res @ [Cookie name v True True]\<rparr>"

definition clearCookie :: "string \<Rightarrow> response \<Rightarrow> response" where
  "clearCookie name res = res\<lparr>set_cookie := set_cookie res @ [ClearCookie name]\<rparr>"

text \<open>
  Modelled from the spec: \<^verbatim>\<open>setTokens\<close> (common/utils/set-tokens.ts) is not among the
  sources. Section 4.1, \<^verbatim>\<open>issue\<close>: the identity is the payload of both tokens, both are
  signed with the secret of the process, the access token expires after the 15 minutes of
  \<^verbatim>\<open>JwtModule.register\<close> and the refresh token later, and both are written to the response as
  HTTP-only, secure cookies named \<^verbatim>\<open>access_token\<close> and \<^verbatim>\<open>refresh_token\<close>.
\<close>

definition accessToken :: "env \<Rightarrow> 'a jwt_payload_scheme \<Rightarrow> token" where
  "accessToken e u = sign e expiresIn u"

definition refreshToken :: "env \<Rightarrow> 'a jwt_payload_scheme \<Rightarrow> token" where
  "refreshToken e u = sign e (refresh_expiresIn e) u"

definition setTokens :: "env \<Rightarrow> 'a jwt_payload_scheme \<Rightarrow> response \<Rightarrow> response" where
  "setTokens e u res =
     res_cookie ''refresh_token'' (refreshToken e u)
       (res_cookie ''access_token'' (accessToken e u) res)"

section \<open>UsersService\<close>

text \<open>
  The messages of the service are Spanish; \<open>o_acute\<close> is the UTF-8 encoding of the
  accented o of \<^verbatim>\<open>operacion\<close>, \<^verbatim>\<open>eliminacion\<close> and \<^verbatim>\<open>actualizacion\<close>.
\<close>

definition o_acute :: string where
  "o_acute = [CHR 0xC3, CHR 0xB3]"

definition ha_realizado :: string where
  "ha_realizado = '' ha realizado la operaci'' @ o_acute @ ''n ''"

text \<open>A number in a template literal: its decimal digits.\<close>

fun show_nat :: "nat \<Rightarrow> string" where
  "show_nat n =
     (if n < 10 then [''0123456789'' ! n]
      else show_nat (n div 10) @ [''0123456789'' ! (n mod 10)])"

text \<open>The summaries the service logs, one template literal each.\<close>

definition list_summary :: "string \<Rightarrow> nat \<Rightarrow> string" where
  "list_summary actor n =
     ''El usuario '' @ actor @ ha_realizado @ ''de listar '' @ show_nat n @ '' usuarios''"

definition delete_summary :: "string \<Rightarrow> string \<Rightarrow> string" where
  "delete_summary actor i =
     ''Usuario '' @ actor @ ha_realizado @ ''la eliminaci'' @ o_acute
     @ ''n del usuario con ID '' @ i"

definition update_summary :: "string \<Rightarrow> string \<Rightarrow> string" where
  "update_summary actor i =
     ''Usuario '' @ actor @ ha_realizado @ ''de actualizaci'' @ o_acute
     @ ''n del usuario con ID '' @ i"

definition view_summary :: "string \<Rightarrow> string" where
  "view_summary actor = ''Usuario '' @ actor @ ha_realizado @ ''de ver su perfil''"

definition login_summary :: "string \<Rightarrow> string" where
  "login_summary actor = ''Usuario '' @ actor @ ha_realizado @ ''de login''"

definition register_summary :: "string \<Rightarrow> string" where
  "register_summary actor = ''Usuario '' @ actor @ ha_realizado @ ''de registro''"

text \<open>
  \<^verbatim>\<open>catch (error) { throw new HttpException({ message: error.message }, BAD_REQUEST) }\<close>,
  the handler of every method but \<^verbatim>\<open>registerUser\<close>. It catches whatever the \<^verbatim>\<open>try\<close> block
  throws: an error of the store, the block's own \<^verbatim>\<open>HttpException\<close>, and an error thrown by
  \<^verbatim>\<open>logOperation\<close> or \<^verbatim>\<open>logger.info\<close>, which the methods below pass to it like the others.
\<close>

definition catch_BAD_REQUEST :: "js_error \<Rightarrow> http_exception" where
  "catch_BAD_REQUEST error = HttpException (Message (error_message error)) BAD_REQUEST"

definition user_does_not_exist :: js_error where
  "user_does_not_exist =
     HttpError (HttpException (Message ''This user does not exist'') BAD_REQUEST)"

definition listAllUsers ::
  "env \<Rightarrow> 'a jwt_payload_scheme \<Rightarrow> world \<Rightarrow> (http_exception + user list) \<times> world" where
  "listAllUsers e req w =
     (case prisma_user_findMany e w of
        (Inl error, w1) \<Rightarrow> (Inl (catch_BAD_REQUEST (Prisma error)), w1)
      | (Inr us, w1) \<Rightarrow>
          (case logOperation (list_summary (email req) (length us)) w1 of
             (Inl error, w2) \<Rightarrow> (Inl (catch_BAD_REQUEST error), w2)
           | (Inr _, w2) \<Rightarrow> (Inr us, w2)))"

definition deleteUser ::
  "env \<Rightarrow> string \<Rightarrow> 'a jwt_payload_scheme \<Rightarrow> world
     \<Rightarrow> (http_exception + string \<times> user) \<times> world" where
  "deleteUser e i req w =
     (case logOperation (delete_summary (email req) i) w of
        (Inl error, w1) \<Rightarrow> (Inl (catch_BAD_REQUEST error), w1)
      | (Inr _, w1) \<Rightarrow>
          (case prisma_user_delete e i w1 of
             (Inl error, w2) \<Rightarrow> (Inl (catch_BAD_REQUEST (Prisma error)), w2)
           | (Inr None, w2) \<Rightarrow> (Inl (catch_BAD_REQUEST user_does_not_exist), w2)
           | (Inr (Some u), w2) \<Rightarrow> (Inr (''User deleted!'', u), w2)))"

definition updateUser ::
  "env \<Rightarrow> string \<Rightarrow> update_user_dto \<Rightarrow> 'a jwt_payload_scheme \<Rightarrow> world
     \<Rightarrow> (http_exception + string \<times> jwt_payload) \<times> world" where
  "updateUser e i updateDto req w =
     (case prisma_user_update e i updateDto w of
        (Inl error, w1) \<Rightarrow> (Inl (catch_BAD_REQUEST (Prisma error)), w1)
      | (Inr None, w1) \<Rightarrow> (Inl (catch_BAD_REQUEST user_does_not_exist), w1)
      | (Inr (Some u), w1) \<Rightarrow>
          (case logOperation (update_summary (email req) i) w1 of
             (Inl error, w2) \<Rightarrow> (Inl (catch_BAD_REQUEST error), w2)
           | (Inr _, w2) \<Rightarrow> (Inr (''User updated!'', userWithoutPassword u), w2)))"

definition getProfile ::
  "env \<Rightarrow> 'a jwt_payload_scheme \<Rightarrow> world \<Rightarrow> (http_exception + jwt_payload) \<times> world" where
  "getProfile e userPayload w =
     (case prisma_user_findUnique e (\<lambda>u. user_id u = user_id userPayload) w of
        (Inl error, w1) \<Rightarrow> (Inl (catch_BAD_REQUEST (Prisma error)), w1)
      | (Inr None, w1) \<Rightarrow> (Inl (catch_BAD_REQUEST user_does_not_exist), w1)
      | (Inr (Some u), w1) \<Rightarrow>
          (case logger_info (view_summary (email u)) w1 of
             (Inl error, w2) \<Rightarrow> (Inl (catch_BAD_REQUEST error), w2)
           | (Inr _, w2) \<Rightarrow> (Inr (userWithoutPassword u), w2)))"

text \<open>
  \<^verbatim>\<open>LoginDto\<close>. \<^verbatim>\<open>bcrypt.compare(password, hash)\<close> holds when the hash is the hash of the
  password.
\<close>

record login_dto =
  login_email :: string
  login_password :: string

definition bcrypt_compare :: "env \<Rightarrow> string \<Rightarrow> string \<Rightarrow> bool" where
  "bcrypt_compare e pw hashed = (bcrypt_hash e pw = hashed)"

definition loginUser ::
  "env \<Rightarrow> login_dto \<Rightarrow> response \<Rightarrow> world
     \<Rightarrow> (http_exception + string \<times> string) \<times> response \<times> world" where
  "loginUser e authDto res w =
     (case prisma_user_findUnique e (\<lambda>u. email u = login_email authDto) w of
        (Inl error, w1) \<Rightarrow> (Inl (catch_BAD_REQUEST (Prisma error)), res, w1)
      | (Inr None, w1) \<Rightarrow>
          (Inl (catch_BAD_REQUEST
                  (HttpError (HttpException (Message ''User or password invalid'') BAD_REQUEST))),
           res, w1)
      | (Inr (Some u), w1) \<Rightarrow>
          if \<not> bcrypt_compare e (login_password authDto) (password u)
          then (Inl (catch_BAD_REQUEST
                       (HttpError (HttpException (Message ''Incorrect password'') BAD_REQUEST))),
                res, w1)
          else (case logOperation (login_summary (login_email authDto)) w1 of
                  (Inl error, w2) \<Rightarrow> (Inl (catch_BAD_REQUEST error), setTokens e u res, w2)
                | (Inr _, w2) \<Rightarrow>
                    (Inr (''Successful login!'', email u), setTokens e u res, w2)))"

text \<open>\<^verbatim>\<open>RegisterDto\<close>; \<^verbatim>\<open>first_name || null\<close> makes an absent or empty name null.\<close>

record register_dto =
  reg_email :: string
  reg_password :: string
  reg_first_name :: "string option"
  reg_last_name :: "string option"

fun or_null :: "string option \<Rightarrow> string option" where
  "or_null None = None"
| "or_null (Some s) = (if s = [] then None else Some s)"

text \<open>
  The handler of \<^verbatim>\<open>registerUser\<close>: the code P2002 of a known request error becomes a
  conflict; an \<^verbatim>\<open>HttpException\<close> keeps its response and status; any other error, of the
  store or of the audit helper, is an internal server error.
\<close>

fun register_catch :: "js_error \<Rightarrow> http_exception" where
  "register_catch (Prisma (PrismaClientKnownRequestError code m)) =
     (if code = ''P2002'' then HttpException (Text ''The email is already registered'') CONFLICT
      else HttpException (Text (''Internal server error '' @ m)) INTERNAL_SERVER_ERROR)"
| "register_catch (Prisma (PrismaClientError m)) =
     HttpException (Text (''Internal server error '' @ m)) INTERNAL_SERVER_ERROR"
| "register_catch (HttpError error) = HttpException (getResponse error) (getStatus error)"
| "register_catch (Error m) =
     HttpException (Text (''Internal server error '' @ m)) INTERNAL_SERVER_ERROR"

definition create_data_of :: "env \<Rightarrow> register_dto \<Rightarrow> create_data" where
  "create_data_of e registerDto =
     \<lparr>data_email = reg_email registerDto,
      data_password = bcrypt_hash e (reg_password registerDto),
      data_first_name = or_null (reg_first_name registerDto),
      data_last_name = or_null (reg_last_name registerDto)\<rparr>"

definition registerUser ::
  "env \<Rightarrow> register_dto \<Rightarrow> response \<Rightarrow> world
     \<Rightarrow> (http_exception + string \<times> jwt_payload) \<times> response \<times> world" where
  "registerUser e registerDto res w =
     (case prisma_user_create e (create_data_of e registerDto) w of
        (Inl error, w1) \<Rightarrow> (Inl (register_catch (Prisma error)), res, w1)
      | (Inr newUser, w1) \<Rightarrow>
          (case logOperation (register_summary (reg_email registerDto)) w1 of
             (Inl error, w2) \<Rightarrow> (Inl (register_catch error), setTokens e newUser res, w2)
           | (Inr _, w2) \<Rightarrow>
               (Inr (''Successful register!'',
                     \<lparr>user_id = user_id newUser, email = email newUser,
                      first_name = first_name newUser, last_name = last_name newUser\<rparr>),
                setTokens e newUser res, w2)))"

section \<open>UsersController\<close>

text \<open>
  \<^verbatim>\<open>@UseGuards(AuthGuard)\<close>: the handler runs when the guard accepts, with the payload the
  guard attached as \<^verbatim>\<open>req.user\<close>; when the guard throws, the handler does not run.
\<close>

definition UseGuards ::
  "env \<Rightarrow> request \<Rightarrow> (jwt_claims \<Rightarrow> world \<Rightarrow> (http_exception + 'a) \<times> world) \<Rightarrow> world
     \<Rightarrow> (http_exception + 'a) \<times> world" where
  "UseGuards e request handler w =
     (case canActivate e request of
        Inl error \<Rightarrow> (Inl error, w)
      | Inr payload \<Rightarrow> handler payload w)"

definition UsersController_getProfile ::
  "env \<Rightarrow> request \<Rightarrow> world \<Rightarrow> (http_exception + jwt_payload) \<times> world" where
  "UsersController_getProfile e request w = UseGuards e request (getProfile e) w"

definition UsersController_updateUser ::
  "env \<Rightarrow> string \<Rightarrow> update_user_dto \<Rightarrow> request \<Rightarrow> world
     \<Rightarrow> (http_exception + string \<times> jwt_payload) \<times> world" where
  "UsersController_updateUser e i updateDto request w =
     UseGuards e request (updateUser e i updateDto) w"

definition UsersController_deleteUser ::
  "env \<Rightarrow> string \<Rightarrow> request \<Rightarrow> world \<Rightarrow> (http_exception + string \<times> user) \<times> world" where
  "UsersController_deleteUser e i request w = UseGuards e request (deleteUser e i) w"

definition UsersController_getAllUsers ::
  "env \<Rightarrow> request \<Rightarrow> world \<Rightarrow> (http_exception + user list) \<times> world" where
  "UsersController_getAllUsers e request w = UseGuards e request (listAllUsers e) w"

text \<open>
  \<^verbatim>\<open>logout\<close>: both cookies are cleared on the response, which is sent with status 200 and
  the message as its body.
\<close>

definition logout :: "response \<Rightarrow> response" where
  "logout res =
     (clearCookie ''refresh_token'' (clearCookie ''access_token'' res))
       \<lparr>status := Some 200, body := Some ''Logout successful''\<rparr>"

text \<open>
  The response of a request starts empty. The client keeps its cookies in a jar, and
  applies the \<^verbatim>\<open>Set-Cookie\<close> headers of a response in their order: a cookie is stored
  under its name, a cleared cookie is removed.
\<close>

definition new_response :: response where
  "new_response = \<lparr>set_cookie = [], status = None, body = None\<rparr>"

fun store_cookie :: "(string \<rightharpoonup> token) \<Rightarrow> cookie \<Rightarrow> (string \<rightharpoonup> token)" where
  "store_cookie jar (Cookie name v h s) = jar(name \<mapsto> v)"
| "store_cookie jar (ClearCookie name) = jar(name := None)"

definition receive :: "response \<Rightarrow> (string \<rightharpoonup> token) \<Rightarrow> (string \<rightharpoonup> token)" where
  "receive res jar = foldl store_cookie jar (set_cookie res)"

section \<open>Observations\<close>

text \<open>The messages broadcast so far, oldest first.\<close>

fun broadcast_of :: "effect \<Rightarrow> string list" where
  "broadcast_of (Broadcast m) = [m]"
| "broadcast_of (Store x) = []"
| "broadcast_of (LogLine m) = []"
| "broadcast_of (LogFailure m) = []"

definition broadcasts :: "world \<Rightarrow> string list" where
  "broadcasts w = concat (map broadcast_of (trace w))"

text \<open>The status of a failed call; none for a call that returned.\<close>

fun result_status :: "http_exception + 'a \<Rightarrow> http_status option" where
  "result_status (Inl error) = Some (getStatus error)"
| "result_status (Inr v) = None"

text \<open>
  The same world with another audit trail: a log sink that takes lines or not, and any
  registry of subscribers.
\<close>

definition with_audit :: "bool \<Rightarrow> subscriber list \<Rightarrow> world \<Rightarrow> world" where
  "with_audit ok ss w = w\<lparr>sink_ok := ok, subscribers := ss\<rparr>"

section \<open>Example inputs\<close>

definition env0 :: env where
  "env0 = \<lparr>jwt_secret = ''s3cret'', now = 1000, hmac = (\<lambda>k c. k @ user_id c @ email c),
           bcrypt_hash = (\<lambda>p. ''h:'' @ p), new_id = ''u3'', db_fault = None,
           refresh_expiresIn = 604800\<rparr>"

definition lost_connection :: prisma_error where
  "lost_connection = PrismaClientError ''Server has closed the connection.''"

definition env1 :: env where
  "env1 = env0\<lparr>new_id := ''u7'', db_fault := Some lost_connection\<rparr>"

definition alice :: jwt_payload where
  "alice = \<lparr>user_id = ''u1'', email = ''a@x.com'', first_name = None, last_name = None\<rparr>"

definition alice_user :: user where
  "alice_user = \<lparr>user_id = ''u1'', email = ''a@x.com'', first_name = None, last_name = None,
                  password = ''h:Secret1!''\<rparr>"

definition bob_user :: user where
  "bob_user = \<lparr>user_id = ''u2'', email = ''b@x.com'', first_name = Some ''Bob'',
                last_name = None, password = ''h:Hunter2!''\<rparr>"

definition carol_user :: user where
  "carol_user = \<lparr>user_id = ''u3'', email = ''c@x.com'', first_name = Some ''Carol'',
                  last_name = Some ''Jones'', password = ''h:Passw0rd!''\<rparr>"

definition carol :: jwt_payload where
  "carol = \<lparr>user_id = ''u3'', email = ''c@x.com'', first_name = Some ''Carol'',
             last_name = Some ''Jones''\<rparr>"

definition carol_moves :: update_user_dto where
  "carol_moves = \<lparr>upd_first_name = None, upd_last_name = Some ''Smith'',
                   upd_email = Some ''carol@x.com''\<rparr>"

definition world0 :: world where
  "world0 = \<lparr>users = [alice_user, bob_user], sink_ok = True,
             subscribers = [\<lparr>handle = 1, writable = True, inbox = []\<rparr>], trace = []\<rparr>"

text \<open>
  A world whose store holds Carol, whose log sink fails and whose only subscriber does
  not accept messages.
\<close>

definition world1 :: world where
  "world1 = \<lparr>users = [carol_user], sink_ok = False,
             subscribers = [\<lparr>handle = 7, writable = False, inbox = []\<rparr>], trace = []\<rparr>"

definition rename_bob :: update_user_dto where
  "rename_bob = \<lparr>upd_first_name = Some ''Robert'', upd_last_name = None, upd_email = None\<rparr>"

definition alice_login :: login_dto where
  "alice_login = \<lparr>login_email = ''a@x.com'', login_password = ''Secret1!''\<rparr>"

definition carol_register :: register_dto where
  "carol_register = \<lparr>reg_email = ''c@x.com'', reg_password = ''Passw0rd!'',
                      reg_first_name = Some ''Carol'', reg_last_name = Some []\<rparr>"

definition alice_again :: register_dto where
  "alice_again = \<lparr>reg_email = ''a@x.com'', reg_password = ''Another1!'',
                   reg_first_name = None, reg_last_name = None\<rparr>"

text \<open>
  Tokens for Alice: one issued at time 0, long expired at the time of \<open>env0\<close>, and one
  signed with a guessed secret.
\<close>

definition expired_token :: token where
  "expired_token = accessToken (env0\<lparr>now := 0\<rparr>) alice"

definition forged_token :: token where
  "forged_token = accessToken (env0\<lparr>jwt_secret := ''guess''\<rparr>) alice"

text \<open>
  Requests: without cookies, with a cookie that is not a token, with the expired and the
  forged token, and two with the access token issued to Alice by \<open>env0\<close>.
\<close>

definition no_cookie_request :: request where
  "no_cookie_request = \<lparr>cookies = Some Map.empty\<rparr>"

definition garbage_request :: request where
  "garbage_request = \<lparr>cookies = Some [''access_token'' \<mapsto> Malformed ''garbage'']\<rparr>"

definition expired_request :: request where
  "expired_request = \<lparr>cookies = Some [''access_token'' \<mapsto> expired_token]\<rparr>"

definition forged_request :: request where
  "forged_request = \<lparr>cookies = Some [''access_token'' \<mapsto> forged_token]\<rparr>"

definition alice_request :: request where
  "alice_request = \<lparr>cookies = Some [''access_token'' \<mapsto> accessToken env0 alice]\<rparr>"

definition alice_request' :: request where
  "alice_request' =
     \<lparr>cookies = Some [''access_token'' \<mapsto> accessToken env0 alice,
                       ''refresh_token'' \<mapsto> Malformed ''stale'']\<rparr>"

section \<open>Containment in the logger and the audit helper\<close>

text \<open>
  The logger and the audit helper contain the failures of the sink and of the
  subscribers: they return whatever the sink and the subscribers do.
\<close>

lemma logger_info_eq:
  "logger_info m w = (Inr (), emit (if sink_ok w then LogLine m else LogFailure m) w)"
  by (simp add: logger_info_def sink_write_def emit_def)

lemma deliver_all_eq:
  "deliver_all m ss = map (\<lambda>s. s\<lparr>inbox := inbox s @ [m]\<rparr>) (filter writable ss)"
  by (induction ss) (simp_all add: deliver_def)

lemma logOperation_eq:
  "logOperation m w
     = (Inr (), emit (Broadcast m)
                  ((emit (if sink_ok w then LogLine m else LogFailure m) w)
                     \<lparr>subscribers := deliver_all m (subscribers w)\<rparr>))"
  by (simp add: logOperation_def logger_info_eq broadcast_def emit_def)

section \<open>Unfolding\<close>

lemmas store_defs = prisma_user_findMany_def prisma_user_findUnique_def prisma_user_delete_def
  prisma_user_update_def prisma_user_create_def emit_def

lemmas audit_eqs = logger_info_eq logOperation_eq

lemmas audit_defs = deliver_def

lemmas service_defs = listAllUsers_def deleteUser_def updateUser_def getProfile_def
  loginUser_def registerUser_def catch_BAD_REQUEST_def user_does_not_exist_def
  userWithoutPassword_def bcrypt_compare_def create_data_of_def apply_update_def
  email_taken_def record_not_found_def unique_constraint_failed_def audit_eqs

lemmas token_defs = accessToken_def sign_def expiresIn_def

lemmas example_defs = env0_def alice_def alice_user_def bob_user_def world0_def rename_bob_def
  alice_login_def carol_register_def carol_user_def carol_def carol_moves_def world1_def

lemmas request_defs = no_cookie_request_def garbage_request_def expired_request_def
  forged_request_def alice_request_def alice_request'_def expired_token_def forged_token_def

section \<open>Tokens and the guard\<close>

lemma verify_expired_token: "verifyAsync env0 expired_token = Inl TokenExpiredError"
  by (simp add: expired_token_def env0_def token_defs alice_def)

lemma verify_forged_token:
  "verifyAsync env0 forged_token = Inl (JsonWebTokenError ''invalid signature'')"
  by (simp add: forged_token_def env0_def token_defs alice_def)

lemma verifyAsync_cong:
  assumes "jwt_secret ea = jwt_secret eb" and "now ea = now eb" and "hmac ea = hmac eb"
  shows "verifyAsync ea t = verifyAsync eb t"
  using assms by (cases t) simp_all

lemma verifyAsync_Inr_not_falsy: "verifyAsync e t = Inr c \<Longrightarrow> \<not> falsy (Some t)"
  by (cases t) simp_all

lemma canActivate_accepts:
  "access_token r = Some t \<Longrightarrow> verifyAsync e t = Inr c \<Longrightarrow> canActivate e r = Inr c"
  by (simp add: canActivate_def verifyAsync_Inr_not_falsy)

text \<open>
  Claim C4. The access token issued for an identity at the time of \<open>e\<close> verifies at any
  time \<open>t\<close> strictly before the time of issue plus 15 minutes, and the claims it yields
  carry that identity; at any time after that instant verification fails with
  \<open>TokenExpiredError\<close>.
\<close>

theorem access_token_roundtrip:
  "(t < now e + 15 * 60 \<longrightarrow>
      (\<exists>c. verifyAsync (e\<lparr>now := t\<rparr>) (accessToken e identity) = Inr c
           \<and> jwt_payload.truncate c = identity \<and> iat c = now e \<and> exp c = now e + 15 * 60))
   \<and> (now e + 15 * 60 < t \<longrightarrow>
      verifyAsync (e\<lparr>now := t\<rparr>) (accessToken e identity) = Inl TokenExpiredError)"
  by (simp add: token_defs jwt_payload.truncate_def Let_def)

text \<open>
  Witness for C4: a token issued to Alice at second 1000 verifies at second 1899 and is
  expired at second 1901.
\<close>

theorem access_token_roundtrip_witness:
  "(1899::nat) < now env0 + 15 * 60 \<and> now env0 + 15 * 60 < (1901::nat)
   \<and> (\<exists>c. verifyAsync (env0\<lparr>now := 1899\<rparr>) (accessToken env0 alice) = Inr c
          \<and> jwt_payload.truncate c = alice)
   \<and> verifyAsync (env0\<lparr>now := 1901\<rparr>) (accessToken env0 alice) = Inl TokenExpiredError"
  using access_token_roundtrip [of 1899 env0 alice] access_token_roundtrip [of 1901 env0 alice]
  by (auto simp add: env0_def)

text \<open>
  Counterexample for C3 as stated: the guard does not answer a request without the cookie
  and a request with an invalid token identically; the two exceptions carry different
  messages.
\<close>

theorem guard_missing_vs_invalid_counterexample:
  "canActivate env0 no_cookie_request
     = Inl (HttpException (Message ''Access token not found'') UNAUTHORIZED)
   \<and> canActivate env0 garbage_request
     = Inl (HttpException (Message ''Invalid or expired token'') UNAUTHORIZED)
   \<and> canActivate env0 no_cookie_request \<noteq> canActivate env0 garbage_request"
  by (simp add: canActivate_def access_token_def UnauthorizedException_def request_defs)

text \<open>
  Claim C3, amended. The guard fails with an \<open>UnauthorizedException\<close> (status 401) both when
  the cookie \<^verbatim>\<open>access_token\<close> is absent or empty and when the token fails verification. A
  token that fails verification gets the same exception whatever the failure (invalid or
  expired); an absent cookie gets a 401 with another message.
\<close>

theorem guard_denies_with_401:
  "(falsy (access_token request) \<longrightarrow>
      canActivate e request
        = Inl (HttpException (Message ''Access token not found'') UNAUTHORIZED))
   \<and> (\<not> falsy (access_token request) \<and> access_token request = Some t
        \<and> verifyAsync e t = Inl err \<longrightarrow>
      canActivate e request
        = Inl (HttpException (Message ''Invalid or expired token'') UNAUTHORIZED))"
  by (auto simp add: canActivate_def UnauthorizedException_def Let_def)

text \<open>
  Witness for C3: a request without cookies, one with an expired token and one with a
  token signed with another secret.
\<close>

theorem guard_denies_with_401_witness:
  "falsy (access_token no_cookie_request)
   \<and> canActivate env0 no_cookie_request
       = Inl (HttpException (Message ''Access token not found'') UNAUTHORIZED)
   \<and> verifyAsync env0 expired_token = Inl TokenExpiredError
   \<and> canActivate env0 expired_request
       = Inl (HttpException (Message ''Invalid or expired token'') UNAUTHORIZED)
   \<and> verifyAsync env0 forged_token = Inl (JsonWebTokenError ''invalid signature'')
   \<and> canActivate env0 forged_request
       = Inl (HttpException (Message ''Invalid or expired token'') UNAUTHORIZED)"
proof -
  have a: "falsy (access_token no_cookie_request)"
    by (simp add: access_token_def no_cookie_request_def)
  have b: "access_token expired_request = Some expired_token"
    by (simp add: access_token_def expired_request_def)
  have c: "access_token forged_request = Some forged_token"
    by (simp add: access_token_def forged_request_def)
  have nb: "\<not> falsy (Some expired_token)"
    by (simp add: expired_token_def token_defs Let_def)
  have nc: "\<not> falsy (Some forged_token)"
    by (simp add: forged_token_def token_defs Let_def)
  note g1 = guard_denies_with_401 [where request = no_cookie_request and e = env0]
  note g2 = guard_denies_with_401 [where request = expired_request and e = env0
      and t = expired_token and err = TokenExpiredError]
  note g3 = guard_denies_with_401 [where request = forged_request and e = env0
      and t = forged_token and err = "JsonWebTokenError ''invalid signature''"]
  show ?thesis
    using a b c nb nc verify_expired_token verify_forged_token g1 g2 g3 by simp
qed

text \<open>
  Claim C8. The decision of the guard is a function of the cookie \<^verbatim>\<open>access_token\<close>, the
  secret and the clock alone (\<open>canActivate\<close> takes no world): two requests with the same
  cookie, under environments with the same secret, clock and signature algorithm, get the
  same decision, whatever the users of the record store are; a guarded handler runs on
  the world as it was, and a request with a valid, unexpired token is accepted with any
  users in the store.
\<close>

theorem guard_reads_only_token_secret_clock:
  assumes "access_token ra = access_token rb"
    and "jwt_secret ea = jwt_secret eb" and "now ea = now eb" and "hmac ea = hmac eb"
  shows "canActivate ea ra = canActivate eb rb
     \<and> UseGuards ea ra handler (w\<lparr>users := usa\<rparr>)
         = (case canActivate eb rb of
              Inl error \<Rightarrow> (Inl error, w\<lparr>users := usa\<rparr>)
            | Inr payload \<Rightarrow> handler payload (w\<lparr>users := usa\<rparr>))
     \<and> UseGuards eb rb handler (w\<lparr>users := usb\<rparr>)
         = (case canActivate eb rb of
              Inl error \<Rightarrow> (Inl error, w\<lparr>users := usb\<rparr>)
            | Inr payload \<Rightarrow> handler payload (w\<lparr>users := usb\<rparr>))
     \<and> (access_token ra = Some t \<and> verifyAsync ea t = Inr c \<longrightarrow>
          UseGuards ea ra handler (w\<lparr>users := usa\<rparr>) = handler c (w\<lparr>users := usa\<rparr>)
          \<and> UseGuards eb rb handler (w\<lparr>users := usb\<rparr>) = handler c (w\<lparr>users := usb\<rparr>))"
proof -
  have v: "verifyAsync ea x = verifyAsync eb x" for x
    using assms(2-4) by (rule verifyAsync_cong)
  have d: "canActivate ea ra = canActivate eb rb"
    using assms(1) by (simp add: canActivate_def v Let_def split: option.splits)
  have acc: "canActivate eb rb = Inr c" if "access_token ra = Some t" "verifyAsync ea t = Inr c"
    using that canActivate_accepts [of ra t ea c] d by simp
  show ?thesis
    using d acc by (auto simp add: UseGuards_def)
qed

text \<open>
  Witness for C8: Alice's token is accepted while her record is in the store and after
  every record is gone (the profile is then not found, which is not a denial by the
  guard), under two environments that differ in the state of the store only and for two
  requests that differ in another cookie.
\<close>

theorem guard_reads_only_token_secret_clock_witness:
  "access_token alice_request = access_token alice_request'
   \<and> jwt_secret env0 = jwt_secret env1 \<and> now env0 = now env1 \<and> hmac env0 = hmac env1
   \<and> canActivate env0 alice_request = canActivate env1 alice_request'
   \<and> fst (UseGuards env0 alice_request (getProfile env0) (world0\<lparr>users := [alice_user]\<rparr>))
       = Inr alice
   \<and> fst (UseGuards env1 alice_request' (getProfile env0) (world0\<lparr>users := []\<rparr>))
       = Inl (HttpException (Message ''This user does not exist'') BAD_REQUEST)"
proof -
  let ?c = "\<lparr>user_id = ''u1'', email = ''a@x.com'', first_name = None, last_name = None,
             iat = 1000, exp = 1900\<rparr>"
  have a: "access_token alice_request = access_token alice_request'"
    by (simp add: access_token_def alice_request_def alice_request'_def)
  have b1: "jwt_secret env0 = jwt_secret env1"
    by (simp add: env1_def)
  have b2: "now env0 = now env1"
    by (simp add: env1_def)
  have b3: "hmac env0 = hmac env1"
    by (simp add: env1_def)
  have t: "access_token alice_request = Some (accessToken env0 alice)"
    by (simp add: access_token_def alice_request_def)
  have v: "verifyAsync env0 (accessToken env0 alice) = Inr ?c"
    by (simp add: token_defs env0_def alice_def)
  have p1: "fst (getProfile env0 ?c (world0\<lparr>users := [alice_user]\<rparr>)) = Inr alice"
    by (simp add: service_defs store_defs example_defs)
  have p2: "fst (getProfile env0 ?c (world0\<lparr>users := []\<rparr>))
       = Inl (HttpException (Message ''This user does not exist'') BAD_REQUEST)"
    by (simp add: service_defs store_defs example_defs)
  note g = guard_reads_only_token_secret_clock [OF a b1 b2 b3, where handler = "getProfile env0"
      and w = world0 and usa = "[alice_user]" and usb = "[]"
      and t = "accessToken env0 alice" and c = ?c]
  from g have d: "canActivate env0 alice_request = canActivate env1 alice_request'"
    by (rule conjunct1)
  from g t v
  have u1: "UseGuards env0 alice_request (getProfile env0) (world0\<lparr>users := [alice_user]\<rparr>)
       = getProfile env0 ?c (world0\<lparr>users := [alice_user]\<rparr>)"
    by blast
  from g t v
  have u2: "UseGuards env1 alice_request' (getProfile env0) (world0\<lparr>users := []\<rparr>)
       = getProfile env0 ?c (world0\<lparr>users := []\<rparr>)"
    by blast
  show ?thesis
    by (intro conjI) (rule a, rule b1, rule b2, rule b3, rule d, simp only: u1 p1,
        simp only: u2 p2)
qed

section \<open>Broadcasts of the service\<close>

lemma broadcasts_emit [simp]: "broadcasts (emit x w) = broadcasts w @ broadcast_of x"
  by (simp add: broadcasts_def emit_def)

lemma broadcasts_users [simp]: "broadcasts (w\<lparr>users := us\<rparr>) = broadcasts w"
  by (simp add: broadcasts_def)

lemma broadcasts_subscribers [simp]: "broadcasts (w\<lparr>subscribers := ss\<rparr>) = broadcasts w"
  by (simp add: broadcasts_def)

lemma users_emit [simp]: "users (emit x w) = users w"
  by (simp add: emit_def)

lemma broadcasts_logger_info [simp]: "broadcasts (snd (logger_info m w)) = broadcasts w"
  by (simp add: logger_info_eq)

lemma broadcasts_broadcast [simp]: "broadcasts (snd (broadcast m w)) = broadcasts w @ [m]"
  by (simp add: broadcast_def)

lemma broadcasts_logOperation [simp]:
  "broadcasts (snd (logOperation m w)) = broadcasts w @ [m]"
  by (simp add: logOperation_eq)

lemma users_logger_info [simp]: "users (snd (logger_info m w)) = users w"
  by (simp add: logger_info_eq)

lemma users_broadcast [simp]: "users (snd (broadcast m w)) = users w"
  by (simp add: broadcast_def)

lemma users_logOperation [simp]: "users (snd (logOperation m w)) = users w"
  by (simp add: logOperation_eq)

lemma getProfile_no_broadcast: "broadcasts (snd (getProfile e p w)) = broadcasts w"
  by (simp add: getProfile_def prisma_user_findUnique_def audit_eqs split: option.splits)

lemma listAllUsers_one_broadcast:
  "fst (listAllUsers e req w) = Inr us \<Longrightarrow>
   broadcasts (snd (listAllUsers e req w)) = broadcasts w @ [list_summary (email req) (length us)]"
  by (auto simp add: listAllUsers_def prisma_user_findMany_def audit_eqs split: option.splits)

lemma deleteUser_one_broadcast:
  "fst (deleteUser e i req w) = Inr r \<Longrightarrow>
   broadcasts (snd (deleteUser e i req w)) = broadcasts w @ [delete_summary (email req) i]"
  by (auto simp add: deleteUser_def prisma_user_delete_def audit_eqs split: option.splits)

lemma updateUser_one_broadcast:
  "fst (updateUser e i d req w) = Inr r \<Longrightarrow>
   broadcasts (snd (updateUser e i d req w)) = broadcasts w @ [update_summary (email req) i]"
  by (auto simp add: updateUser_def prisma_user_update_def audit_eqs
      split: option.splits if_splits)

lemma loginUser_one_broadcast:
  "fst (loginUser e d res w) = Inr r \<Longrightarrow>
   broadcasts (snd (snd (loginUser e d res w))) = broadcasts w @ [login_summary (login_email d)]"
  by (auto simp add: loginUser_def prisma_user_findUnique_def audit_eqs
      split: option.splits if_splits)

lemma registerUser_one_broadcast:
  "fst (registerUser e d res w) = Inr r \<Longrightarrow>
   broadcasts (snd (snd (registerUser e d res w)))
     = broadcasts w @ [register_summary (reg_email d)]"
  by (auto simp add: registerUser_def prisma_user_create_def audit_eqs Let_def
      split: option.splits if_splits)

subsection \<open>The service on the example inputs\<close>

lemma ex_list: "fst (listAllUsers env0 alice world0) = Inr [alice_user, bob_user]"
  by (simp add: service_defs store_defs example_defs)

lemma ex_delete: "fst (deleteUser env0 ''u2'' alice world0) = Inr (''User deleted!'', bob_user)"
  by (simp add: service_defs store_defs audit_defs example_defs)

lemma ex_update:
  "fst (updateUser env0 ''u2'' rename_bob alice world0)
     = Inr (''User updated!'', \<lparr>user_id = ''u2'', email = ''b@x.com'',
                                first_name = Some ''Robert'', last_name = None\<rparr>)"
  by (simp add: service_defs store_defs audit_defs example_defs)

lemma ex_login:
  "fst (loginUser env0 alice_login new_response world0) = Inr (''Successful login!'', ''a@x.com'')"
  by (simp add: service_defs store_defs audit_defs example_defs)

lemma ex_register:
  "fst (registerUser env0 carol_register new_response world0)
     = Inr (''Successful register!'', \<lparr>user_id = ''u3'', email = ''c@x.com'',
                                       first_name = Some ''Carol'', last_name = None\<rparr>)"
  by (simp add: service_defs store_defs audit_defs example_defs Let_def)

lemma ex_profile: "fst (getProfile env0 alice world0) = Inr alice"
  by (simp add: service_defs store_defs audit_defs example_defs)

text \<open>
  Claim C2. A call of \<open>getProfile\<close> (operation \<^verbatim>\<open>view\<close>) adds no broadcast, successful or not;
  a successful call of \<open>listAllUsers\<close>, \<open>deleteUser\<close>, \<open>updateUser\<close>, \<open>loginUser\<close> or
  \<open>registerUser\<close> adds exactly one broadcast, the summary of the operation.
\<close>

theorem view_silent_others_broadcast_once:
  "broadcasts (snd (getProfile e p w)) = broadcasts w
   \<and> (fst (listAllUsers e req w) = Inr us \<longrightarrow>
        broadcasts (snd (listAllUsers e req w))
          = broadcasts w @ [list_summary (email req) (length us)])
   \<and> (fst (deleteUser e i req w) = Inr rd \<longrightarrow>
        broadcasts (snd (deleteUser e i req w)) = broadcasts w @ [delete_summary (email req) i])
   \<and> (fst (updateUser e i d req w) = Inr ru \<longrightarrow>
        broadcasts (snd (updateUser e i d req w)) = broadcasts w @ [update_summary (email req) i])
   \<and> (fst (loginUser e ld res w) = Inr rl \<longrightarrow>
        broadcasts (snd (snd (loginUser e ld res w)))
          = broadcasts w @ [login_summary (login_email ld)])
   \<and> (fst (registerUser e rg res w) = Inr rr \<longrightarrow>
        broadcasts (snd (snd (registerUser e rg res w)))
          = broadcasts w @ [register_summary (reg_email rg)])"
proof (intro conjI impI)
  show "broadcasts (snd (getProfile e p w)) = broadcasts w"
    by (rule getProfile_no_broadcast)
qed (erule listAllUsers_one_broadcast deleteUser_one_broadcast updateUser_one_broadcast
    loginUser_one_broadcast registerUser_one_broadcast)+

text \<open>
  Witness for C2: each of the six operations succeeds on the example world, which starts
  with no broadcast; the profile read leaves none, every other operation leaves one.
\<close>

theorem view_silent_others_broadcast_once_witness:
  "fst (getProfile env0 alice world0) = Inr alice
   \<and> broadcasts (snd (getProfile env0 alice world0)) = []
   \<and> fst (listAllUsers env0 alice world0) = Inr [alice_user, bob_user]
   \<and> broadcasts (snd (listAllUsers env0 alice world0)) = [list_summary ''a@x.com'' 2]
   \<and> fst (deleteUser env0 ''u2'' alice world0) = Inr (''User deleted!'', bob_user)
   \<and> broadcasts (snd (deleteUser env0 ''u2'' alice world0)) = [delete_summary ''a@x.com'' ''u2'']
   \<and> fst (updateUser env0 ''u2'' rename_bob alice world0)
       = Inr (''User updated!'', \<lparr>user_id = ''u2'', email = ''b@x.com'',
                                  first_name = Some ''Robert'', last_name = None\<rparr>)
   \<and> broadcasts (snd (updateUser env0 ''u2'' rename_bob alice world0))
       = [update_summary ''a@x.com'' ''u2'']
   \<and> fst (loginUser env0 alice_login new_response world0)
       = Inr (''Successful login!'', ''a@x.com'')
   \<and> broadcasts (snd (snd (loginUser env0 alice_login new_response world0)))
       = [login_summary ''a@x.com'']
   \<and> fst (registerUser env0 carol_register new_response world0)
       = Inr (''Successful register!'', \<lparr>user_id = ''u3'', email = ''c@x.com'',
                                         first_name = Some ''Carol'', last_name = None\<rparr>)
   \<and> broadcasts (snd (snd (registerUser env0 carol_register new_response world0)))
       = [register_summary ''c@x.com'']"
proof -
  have b0: "broadcasts world0 = []"
    by (simp add: broadcasts_def world0_def)
  have ea: "email alice = ''a@x.com''"
    by (simp add: alice_def)
  have el: "login_email alice_login = ''a@x.com''"
    by (simp add: alice_login_def)
  have er: "reg_email carol_register = ''c@x.com''"
    by (simp add: carol_register_def)
  note t = view_silent_others_broadcast_once [where e = env0 and p = alice and w = world0
      and req = alice and us = "[alice_user, bob_user]" and i = "''u2''"
      and rd = "(''User deleted!'', bob_user)" and d = rename_bob
      and ru = "(''User updated!'', \<lparr>user_id = ''u2'', email = ''b@x.com'',
                                  first_name = Some ''Robert'', last_name = None\<rparr>)"
      and ld = alice_login and res = new_response
      and rl = "(''Successful login!'', ''a@x.com'')" and rg = carol_register
      and rr = "(''Successful register!'', \<lparr>user_id = ''u3'', email = ''c@x.com'',
                                         first_name = Some ''Carol'', last_name = None\<rparr>)"]
  show ?thesis
    using t ex_profile ex_list ex_delete ex_update ex_login ex_register
    by (simp add: b0 ea el er numeral_2_eq_2)
qed

subsection \<open>The order of broadcast and store call\<close>

text \<open>
  A deletion that fails has broadcast its summary all the same, and has left the users of
  the store as they were; an update that fails has left the world as it was.
\<close>

lemma deleteUser_failed_still_broadcasts:
  "fst (deleteUser e i req w) = Inl x \<Longrightarrow>
   broadcasts (snd (deleteUser e i req w)) = broadcasts w @ [delete_summary (email req) i]
   \<and> users (snd (deleteUser e i req w)) = users w"
  by (auto simp add: audit_eqs deleteUser_def prisma_user_delete_def Let_def split: option.splits)

lemma updateUser_failed_no_broadcast:
  "fst (updateUser e i d req w) = Inl x \<Longrightarrow> snd (updateUser e i d req w) = w"
  by (auto simp add: audit_eqs updateUser_def prisma_user_update_def split: option.splits if_splits)

text \<open>
  Claim C1, evaluated where the code departs from it. \<open>deleteUser\<close> logs and broadcasts
  the summary of the deletion before it calls the store. For the identifier \<^verbatim>\<open>u9\<close>, which
  the store does not hold, the call fails with status 400 and the store keeps its users,
  yet the subscriber has received the summary of a deletion. When the deletion succeeds
  the broadcast precedes it as well. \<open>updateUser\<close> broadcasts after the store has
  committed, and not at all when the update fails.
\<close>

theorem deleteUser_broadcasts_without_commit:
  "fst (deleteUser env0 ''u9'' alice world0)
     = Inl (HttpException (Message (error_message (Prisma record_not_found))) BAD_REQUEST)
   \<and> users (snd (deleteUser env0 ''u9'' alice world0)) = users world0
   \<and> trace (snd (deleteUser env0 ''u9'' alice world0))
       = [LogLine (delete_summary ''a@x.com'' ''u9''), Broadcast (delete_summary ''a@x.com'' ''u9'')]
   \<and> map inbox (subscribers (snd (deleteUser env0 ''u9'' alice world0)))
       = [[delete_summary ''a@x.com'' ''u9'']]
   \<and> trace (snd (deleteUser env0 ''u2'' alice world0))
       = [LogLine (delete_summary ''a@x.com'' ''u2''), Broadcast (delete_summary ''a@x.com'' ''u2''),
          Store ''delete'']
   \<and> trace (snd (updateUser env0 ''u2'' rename_bob alice world0))
       = [Store ''update'', LogLine (update_summary ''a@x.com'' ''u2''),
          Broadcast (update_summary ''a@x.com'' ''u2'')]
   \<and> trace (snd (updateUser env0 ''u9'' rename_bob alice world0)) = []"
  by (simp add: service_defs store_defs audit_defs example_defs)

text \<open>
  Claim C5, evaluated where the code departs from it. An update or a deletion of the
  identifier \<^verbatim>\<open>u9\<close>, which the store does not hold, and a profile read for Alice after her
  record was deleted, all fail with status \<open>BAD_REQUEST\<close> (400), the status a lost
  connection to the store gets too; none fails with \<open>NOT_FOUND\<close> (404), and no call of the
  three operations ever does.
\<close>

theorem absent_record_is_bad_request:
  "fst (updateUser env0 ''u9'' rename_bob alice world0)
     = Inl (HttpException (Message (error_message (Prisma record_not_found))) BAD_REQUEST)
   \<and> fst (deleteUser env0 ''u9'' alice world0)
     = Inl (HttpException (Message (error_message (Prisma record_not_found))) BAD_REQUEST)
   \<and> fst (getProfile env0 alice (snd (deleteUser env0 ''u1'' alice world0)))
     = Inl (HttpException (Message ''This user does not exist'') BAD_REQUEST)
   \<and> fst (getProfile (env0\<lparr>db_fault := Some lost_connection\<rparr>) alice world0)
     = Inl (HttpException (Message ''Server has closed the connection.'') BAD_REQUEST)
   \<and> status_code BAD_REQUEST = 400 \<and> status_code NOT_FOUND = 404
   \<and> result_status (fst (updateUser e i d req w)) \<noteq> Some NOT_FOUND
   \<and> result_status (fst (deleteUser e i req w)) \<noteq> Some NOT_FOUND
   \<and> result_status (fst (getProfile e p w)) \<noteq> Some NOT_FOUND"
proof -
  have general: "result_status (fst (updateUser e i d req w)) \<noteq> Some NOT_FOUND
     \<and> result_status (fst (deleteUser e i req w)) \<noteq> Some NOT_FOUND
     \<and> result_status (fst (getProfile e p w)) \<noteq> Some NOT_FOUND"
    by (simp add: audit_eqs updateUser_def deleteUser_def getProfile_def prisma_user_update_def
        prisma_user_delete_def prisma_user_findUnique_def catch_BAD_REQUEST_def Let_def
        split: option.splits)
  have concrete: "fst (updateUser env0 ''u9'' rename_bob alice world0)
       = Inl (HttpException (Message (error_message (Prisma record_not_found))) BAD_REQUEST)
     \<and> fst (deleteUser env0 ''u9'' alice world0)
       = Inl (HttpException (Message (error_message (Prisma record_not_found))) BAD_REQUEST)
     \<and> fst (getProfile env0 alice (snd (deleteUser env0 ''u1'' alice world0)))
       = Inl (HttpException (Message ''This user does not exist'') BAD_REQUEST)
     \<and> fst (getProfile (env0\<lparr>db_fault := Some lost_connection\<rparr>) alice world0)
       = Inl (HttpException (Message ''Server has closed the connection.'') BAD_REQUEST)"
    by (simp add: service_defs store_defs audit_defs example_defs lost_connection_def)
  from concrete general show ?thesis
    by simp
qed

section \<open>Registration conflicts\<close>

lemma register_catch_conflict_iff:
  "getStatus (register_catch (Prisma err)) = CONFLICT
     \<longleftrightarrow> (\<exists>m. err = PrismaClientKnownRequestError ''P2002'' m)"
  by (cases err) auto

lemma registerUser_failure:
  "fst (prisma_user_create e (create_data_of e d) w) = Inl err \<Longrightarrow>
   fst (registerUser e d res w) = Inl (register_catch (Prisma err))"
  by (cases "prisma_user_create e (create_data_of e d) w") (simp add: registerUser_def audit_eqs)

lemma registerUser_success:
  "fst (prisma_user_create e (create_data_of e d) w) = Inr u \<Longrightarrow>
   \<exists>r. fst (registerUser e d res w) = Inr r"
  by (cases "prisma_user_create e (create_data_of e d) w") (simp add: registerUser_def audit_eqs)

lemma create_duplicate_email:
  "db_fault e = None \<Longrightarrow> list_ex (\<lambda>u. email u = reg_email d) (users w) \<Longrightarrow>
   prisma_user_create e (create_data_of e d) w
     = (Inl (PrismaClientKnownRequestError ''P2002''
               ''Unique constraint failed on the fields: (`email`)''), w)"
  by (simp add: prisma_user_create_def create_data_of_def unique_constraint_failed_def)

text \<open>
  Claim C6. A registration whose email a stored user already has fails with the conflict
  \<open>HttpException\<close> (status 409) and leaves the response and the world as they were; so does
  any registration for which the store's \<open>create\<close> signals the duplicate-key error P2002;
  and a registration fails with status \<open>CONFLICT\<close> only when \<open>create\<close> signalled P2002, so
  no other failure of the store produces a conflict.
\<close>

theorem register_conflict_only_for_duplicate_key:
  "(db_fault e = None \<and> list_ex (\<lambda>u. email u = reg_email d) (users w) \<longrightarrow>
      registerUser e d res w
        = (Inl (HttpException (Text ''The email is already registered'') CONFLICT), res, w))
   \<and> (fst (prisma_user_create e (create_data_of e d) w)
         = Inl (PrismaClientKnownRequestError ''P2002'' m) \<longrightarrow>
      fst (registerUser e d res w)
        = Inl (HttpException (Text ''The email is already registered'') CONFLICT))
   \<and> (result_status (fst (registerUser e d res w)) = Some CONFLICT \<longrightarrow>
      (\<exists>m'. fst (prisma_user_create e (create_data_of e d) w)
              = Inl (PrismaClientKnownRequestError ''P2002'' m')))"
proof (intro conjI impI)
  assume "db_fault e = None \<and> list_ex (\<lambda>u. email u = reg_email d) (users w)"
  then show "registerUser e d res w
      = (Inl (HttpException (Text ''The email is already registered'') CONFLICT), res, w)"
    by (simp add: audit_eqs registerUser_def create_duplicate_email)
next
  assume "fst (prisma_user_create e (create_data_of e d) w)
      = Inl (PrismaClientKnownRequestError ''P2002'' m)"
  then show "fst (registerUser e d res w)
      = Inl (HttpException (Text ''The email is already registered'') CONFLICT)"
    by (simp add: registerUser_failure)
next
  assume c: "result_status (fst (registerUser e d res w)) = Some CONFLICT"
  show "\<exists>m'. fst (prisma_user_create e (create_data_of e d) w)
              = Inl (PrismaClientKnownRequestError ''P2002'' m')"
  proof (cases "fst (prisma_user_create e (create_data_of e d) w)")
    case (Inl err)
    with c have "getStatus (register_catch (Prisma err)) = CONFLICT"
      by (simp add: registerUser_failure)
    with Inl show ?thesis
      by (simp add: register_catch_conflict_iff)
  next
    case (Inr u)
    from registerUser_success [OF Inr] obtain r where "fst (registerUser e d res w) = Inr r" ..
    with c show ?thesis by simp
  qed
qed

text \<open>
  Witness for C6: registering Alice's email again is a conflict; registering Carol while
  the connection to the store is lost is an internal server error, not a conflict.
\<close>

theorem register_conflict_only_for_duplicate_key_witness:
  "db_fault env0 = None \<and> list_ex (\<lambda>u. email u = reg_email alice_again) (users world0)
   \<and> registerUser env0 alice_again new_response world0
       = (Inl (HttpException (Text ''The email is already registered'') CONFLICT),
          new_response, world0)
   \<and> fst (prisma_user_create env0 (create_data_of env0 alice_again) world0)
       = Inl (PrismaClientKnownRequestError ''P2002''
                ''Unique constraint failed on the fields: (`email`)'')
   \<and> result_status (fst (registerUser env0 alice_again new_response world0)) = Some CONFLICT
   \<and> fst (registerUser env1 carol_register new_response world0)
       = Inl (HttpException (Text ''Internal server error Server has closed the connection.'')
                INTERNAL_SERVER_ERROR)"
proof -
  have h: "db_fault env0 = None \<and> list_ex (\<lambda>u. email u = reg_email alice_again) (users world0)"
    by (simp add: example_defs alice_again_def)
  have lost: "fst (registerUser env1 carol_register new_response world0)
       = Inl (HttpException (Text ''Internal server error Server has closed the connection.'')
                INTERNAL_SERVER_ERROR)"
    by (simp add: audit_eqs registerUser_def prisma_user_create_def lost_connection_def env1_def)
  have dup: "fst (prisma_user_create env0 (create_data_of env0 alice_again) world0)
       = Inl (PrismaClientKnownRequestError ''P2002''
                ''Unique constraint failed on the fields: (`email`)'')"
    using h by (simp add: create_duplicate_email)
  note t = register_conflict_only_for_duplicate_key [where e = env0 and d = alice_again
      and w = world0 and res = new_response
      and m = "''Unique constraint failed on the fields: (`email`)''"]
  show ?thesis
    using t h lost dup by simp
qed

section \<open>Audit failures\<close>

lemma users_with_audit [simp]: "users (with_audit ok ss w) = users w"
  by (simp add: with_audit_def)

lemma listAllUsers_audit:
  "fst (listAllUsers e req (with_audit ok ss w)) = fst (listAllUsers e req w)
   \<and> users (snd (listAllUsers e req (with_audit ok ss w))) = users (snd (listAllUsers e req w))"
  by (simp add: audit_eqs listAllUsers_def prisma_user_findMany_def split: option.splits)

lemma deleteUser_audit:
  "fst (deleteUser e i req (with_audit ok ss w)) = fst (deleteUser e i req w)
   \<and> users (snd (deleteUser e i req (with_audit ok ss w))) = users (snd (deleteUser e i req w))"
  by (simp add: audit_eqs deleteUser_def prisma_user_delete_def Let_def split: option.splits)

lemma updateUser_audit:
  "fst (updateUser e i d req (with_audit ok ss w)) = fst (updateUser e i d req w)
   \<and> users (snd (updateUser e i d req (with_audit ok ss w)))
       = users (snd (updateUser e i d req w))"
  by (simp add: audit_eqs updateUser_def prisma_user_update_def split: option.splits)

lemma getProfile_audit:
  "fst (getProfile e p (with_audit ok ss w)) = fst (getProfile e p w)
   \<and> users (snd (getProfile e p (with_audit ok ss w))) = users (snd (getProfile e p w))"
  by (simp add: audit_eqs getProfile_def prisma_user_findUnique_def split: option.splits)

lemma loginUser_audit:
  "fst (loginUser e d res (with_audit ok ss w)) = fst (loginUser e d res w)
   \<and> fst (snd (loginUser e d res (with_audit ok ss w))) = fst (snd (loginUser e d res w))
   \<and> users (snd (snd (loginUser e d res (with_audit ok ss w))))
       = users (snd (snd (loginUser e d res w)))"
  by (simp add: audit_eqs loginUser_def prisma_user_findUnique_def split: option.splits)

lemma registerUser_audit:
  "fst (registerUser e d res (with_audit ok ss w)) = fst (registerUser e d res w)
   \<and> fst (snd (registerUser e d res (with_audit ok ss w))) = fst (snd (registerUser e d res w))
   \<and> users (snd (snd (registerUser e d res (with_audit ok ss w))))
       = users (snd (snd (registerUser e d res w)))"
  by (simp add: audit_eqs registerUser_def prisma_user_create_def Let_def split: option.splits)

text \<open>
  What the handlers of the service make of an error thrown by the logger or the audit
  helper, were one to reach them: a failure of the operation, with status 400, or 500 in
  \<open>registerUser\<close>. The containment is the helper's, not the service's.
\<close>

lemma helper_error_in_catch:
  "catch_BAD_REQUEST (Error m) = HttpException (Message m) BAD_REQUEST
   \<and> register_catch (Error m)
       = HttpException (Text (''Internal server error '' @ m)) INTERNAL_SERVER_ERROR"
  by (simp add: catch_BAD_REQUEST_def)

text \<open>
  With a log sink that fails and a subscriber that does not accept messages, the deletion
  of Carol succeeds: the failure of the sink is reported apart, the subscriber is dropped.
\<close>

lemma ex_audit_down:
  "deleteUser env0 ''u3'' alice world1
     = (Inr (''User deleted!'', carol_user),
        \<lparr>users = [], sink_ok = False, subscribers = [],
         trace = [LogFailure (delete_summary ''a@x.com'' ''u3''),
                  Broadcast (delete_summary ''a@x.com'' ''u3''), Store ''delete'']\<rparr>)"
  by (simp add: service_defs store_defs audit_defs example_defs)

text \<open>
  Claim C7. The write to the log sink fails when the sink does not take the line, and the
  delivery to a subscriber fails when it does not accept the message; the logger and the
  audit helper return all the same. What an operation returns or throws, the cookies it
  sets, and the users it leaves in the store are the same whether the log sink takes
  lines or fails, and whoever the subscribers are and whether they accept messages: a
  failure of the audit trail never reaches the caller.
\<close>

theorem audit_failure_never_surfaces:
  "fst (sink_write m (with_audit False ss w)) = Inl (Error ''write to the log sink failed'')
   \<and> deliver m (s\<lparr>writable := False\<rparr>)
       = Inl (Error ''the subscriber does not accept the message'')
   \<and> fst (logger_info m (with_audit ok ss w)) = Inr ()
   \<and> fst (logOperation m (with_audit ok ss w)) = Inr ()
   \<and> fst (listAllUsers e req (with_audit ok ss w)) = fst (listAllUsers e req w)
   \<and> users (snd (listAllUsers e req (with_audit ok ss w))) = users (snd (listAllUsers e req w))
   \<and> fst (deleteUser e i req (with_audit ok ss w)) = fst (deleteUser e i req w)
   \<and> users (snd (deleteUser e i req (with_audit ok ss w))) = users (snd (deleteUser e i req w))
   \<and> fst (updateUser e i d req (with_audit ok ss w)) = fst (updateUser e i d req w)
   \<and> users (snd (updateUser e i d req (with_audit ok ss w)))
       = users (snd (updateUser e i d req w))
   \<and> fst (getProfile e p (with_audit ok ss w)) = fst (getProfile e p w)
   \<and> users (snd (getProfile e p (with_audit ok ss w))) = users (snd (getProfile e p w))
   \<and> fst (loginUser e ld res (with_audit ok ss w)) = fst (loginUser e ld res w)
   \<and> fst (snd (loginUser e ld res (with_audit ok ss w))) = fst (snd (loginUser e ld res w))
   \<and> users (snd (snd (loginUser e ld res (with_audit ok ss w))))
       = users (snd (snd (loginUser e ld res w)))
   \<and> fst (registerUser e rg res (with_audit ok ss w)) = fst (registerUser e rg res w)
   \<and> fst (snd (registerUser e rg res (with_audit ok ss w)))
       = fst (snd (registerUser e rg res w))
   \<and> users (snd (snd (registerUser e rg res (with_audit ok ss w))))
       = users (snd (snd (registerUser e rg res w)))"
proof -
  have failing: "fst (sink_write m (with_audit False ss w))
       = Inl (Error ''write to the log sink failed'')
     \<and> deliver m (s\<lparr>writable := False\<rparr>)
       = Inl (Error ''the subscriber does not accept the message'')"
    by (simp add: sink_write_def deliver_def with_audit_def)
  have contained: "fst (logger_info m (with_audit ok ss w)) = Inr ()
     \<and> fst (logOperation m (with_audit ok ss w)) = Inr ()"
    by (simp add: audit_eqs)
  from failing contained show ?thesis
    by (simp only: listAllUsers_audit deleteUser_audit updateUser_audit getProfile_audit
        loginUser_audit registerUser_audit simp_thms)
qed

section \<open>Logout\<close>

text \<open>
  Claim C9. \<open>logout\<close> answers every request with the same response: both cookies cleared,
  status 200. Whatever cookies the client held, it holds neither \<^verbatim>\<open>access_token\<close> nor
  \<^verbatim>\<open>refresh_token\<close> afterwards and keeps every other cookie; a second logout gives the
  same response and leaves the cookies as the first did.
\<close>

theorem logout_clears_both_cookies_idempotent:
  "logout new_response
     = \<lparr>set_cookie = [ClearCookie ''access_token'', ClearCookie ''refresh_token''],
        status = Some 200, body = Some ''Logout successful''\<rparr>
   \<and> receive (logout new_response) jar
       = (\<lambda>name. if name = ''access_token'' \<or> name = ''refresh_token'' then None else jar name)
   \<and> receive (logout new_response) (receive (logout new_response) jar)
       = receive (logout new_response) jar"
proof -
  have r: "receive (logout new_response) j
       = (\<lambda>name. if name = ''access_token'' \<or> name = ''refresh_token'' then None else j name)"
    for j
    by (rule ext) (simp add: receive_def logout_def clearCookie_def new_response_def)
  have a: "logout new_response
       = \<lparr>set_cookie = [ClearCookie ''access_token'', ClearCookie ''refresh_token''],
          status = Some 200, body = Some ''Logout successful''\<rparr>"
    by (simp add: logout_def clearCookie_def new_response_def)
  have c: "receive (logout new_response) (receive (logout new_response) jar)
       = receive (logout new_response) jar"
    by (simp add: r fun_eq_iff)
  show ?thesis
    by (intro conjI) (rule a, rule r, rule c)
qed

section \<open>Passwords in results\<close>

lemma getProfile_result:
  "fst (getProfile e p w) = Inr r \<Longrightarrow>
   \<exists>u. find (\<lambda>u. user_id u = user_id p) (users w) = Some u
       \<and> r = \<lparr>user_id = user_id u, email = email u, first_name = first_name u,
               last_name = last_name u\<rparr>"
  by (auto simp add: audit_eqs getProfile_def prisma_user_findUnique_def
      userWithoutPassword_def split: option.splits)

lemma updateUser_result:
  "fst (updateUser e i d req w) = Inr r \<Longrightarrow>
   \<exists>u. find (\<lambda>u. user_id u = i) (users w) = Some u
       \<and> r = (''User updated!'',
              \<lparr>user_id = user_id u,
               email = (case upd_email d of None \<Rightarrow> email u | Some x \<Rightarrow> x),
               first_name = (case upd_first_name d of None \<Rightarrow> first_name u | Some x \<Rightarrow> Some x),
               last_name = (case upd_last_name d of None \<Rightarrow> last_name u | Some x \<Rightarrow> Some x)\<rparr>)"
  by (auto simp add: audit_eqs updateUser_def prisma_user_update_def userWithoutPassword_def
      apply_update_def split: option.splits if_splits)

lemma listAllUsers_result:
  "fst (listAllUsers e req w) = Inr us \<Longrightarrow> us = users w"
  by (auto simp add: audit_eqs listAllUsers_def prisma_user_findMany_def split: option.splits)

lemma deleteUser_result:
  "fst (deleteUser e i req w) = Inr r \<Longrightarrow>
   \<exists>u. find (\<lambda>u. user_id u = i) (users w) = Some u \<and> r = (''User deleted!'', u)"
  by (auto simp add: audit_eqs deleteUser_def prisma_user_delete_def Let_def split: option.splits)

text \<open>
  Claim C10. A successful \<open>getProfile\<close> returns the stored user of the payload's
  identifier with its identifier, email, first name and last name as they are stored and
  without its password; a successful \<open>updateUser\<close> returns the updated user, each field
  being the one of the request where it gives one and the stored one otherwise, without
  its password. A successful \<open>listAllUsers\<close> returns the stored users as they are,
  passwords included, and a successful \<open>deleteUser\<close> the stored user it deleted, password
  included.
\<close>

theorem password_filtered_only_by_profile_and_update:
  "(fst (getProfile e p w) = Inr rp \<longrightarrow>
      (\<exists>u. find (\<lambda>u. user_id u = user_id p) (users w) = Some u
           \<and> rp = \<lparr>user_id = user_id u, email = email u, first_name = first_name u,
                    last_name = last_name u\<rparr>))
   \<and> (fst (updateUser e i d req w) = Inr ru \<longrightarrow>
      (\<exists>u. find (\<lambda>u. user_id u = i) (users w) = Some u
           \<and> ru = (''User updated!'',
                   \<lparr>user_id = user_id u,
                    email = (case upd_email d of None \<Rightarrow> email u | Some x \<Rightarrow> x),
                    first_name =
                      (case upd_first_name d of None \<Rightarrow> first_name u | Some x \<Rightarrow> Some x),
                    last_name =
                      (case upd_last_name d of None \<Rightarrow> last_name u | Some x \<Rightarrow> Some x)\<rparr>)))
   \<and> (fst (listAllUsers e req w) = Inr us \<longrightarrow>
      us = users w \<and> map password us = map password (users w))
   \<and> (fst (deleteUser e i req w) = Inr rd \<longrightarrow>
      (\<exists>u. find (\<lambda>u. user_id u = i) (users w) = Some u \<and> rd = (''User deleted!'', u)
           \<and> password (snd rd) = password u))"
proof (intro conjI impI)
  assume "fst (getProfile e p w) = Inr rp"
  then show "\<exists>u. find (\<lambda>u. user_id u = user_id p) (users w) = Some u
      \<and> rp = \<lparr>user_id = user_id u, email = email u, first_name = first_name u,
               last_name = last_name u\<rparr>"
    by (rule getProfile_result)
next
  assume "fst (updateUser e i d req w) = Inr ru"
  then show "\<exists>u. find (\<lambda>u. user_id u = i) (users w) = Some u
      \<and> ru = (''User updated!'',
              \<lparr>user_id = user_id u,
               email = (case upd_email d of None \<Rightarrow> email u | Some x \<Rightarrow> x),
               first_name =
                 (case upd_first_name d of None \<Rightarrow> first_name u | Some x \<Rightarrow> Some x),
               last_name =
                 (case upd_last_name d of None \<Rightarrow> last_name u | Some x \<Rightarrow> Some x)\<rparr>)"
    by (rule updateUser_result)
next
  assume l: "fst (listAllUsers e req w) = Inr us"
  then show "us = users w"
    by (rule listAllUsers_result)
  from listAllUsers_result [OF l] show "map password us = map password (users w)"
    by simp
next
  assume "fst (deleteUser e i req w) = Inr rd"
  from deleteUser_result [OF this]
  show "\<exists>u. find (\<lambda>u. user_id u = i) (users w) = Some u \<and> rd = (''User deleted!'', u)
      \<and> password (snd rd) = password u"
    by auto
qed

text \<open>
  Witness for C10, on a store that holds Carol, every field of whose record is set: her
  profile comes back with her identifier, email and both names and without the hash; her
  update comes back with the new email and last name, the stored first name, and without
  the hash; the list and the deletion come back with the stored hash.
\<close>

theorem password_filtered_only_by_profile_and_update_witness:
  "fst (getProfile env0 carol world1)
     = Inr \<lparr>user_id = ''u3'', email = ''c@x.com'', first_name = Some ''Carol'',
            last_name = Some ''Jones''\<rparr>
   \<and> fst (updateUser env0 ''u3'' carol_moves alice world1)
       = Inr (''User updated!'',
              \<lparr>user_id = ''u3'', email = ''carol@x.com'', first_name = Some ''Carol'',
               last_name = Some ''Smith''\<rparr>)
   \<and> fst (listAllUsers env0 alice world1)
       = Inr [\<lparr>user_id = ''u3'', email = ''c@x.com'', first_name = Some ''Carol'',
               last_name = Some ''Jones'', password = ''h:Passw0rd!''\<rparr>]
   \<and> fst (deleteUser env0 ''u3'' alice world1)
       = Inr (''User deleted!'',
              \<lparr>user_id = ''u3'', email = ''c@x.com'', first_name = Some ''Carol'',
               last_name = Some ''Jones'', password = ''h:Passw0rd!''\<rparr>)"
proof -
  have g: "fst (getProfile env0 carol world1)
       = Inr \<lparr>user_id = ''u3'', email = ''c@x.com'', first_name = Some ''Carol'',
              last_name = Some ''Jones''\<rparr>"
    by (simp add: service_defs store_defs example_defs)
  have u: "fst (updateUser env0 ''u3'' carol_moves alice world1)
       = Inr (''User updated!'',
              \<lparr>user_id = ''u3'', email = ''carol@x.com'', first_name = Some ''Carol'',
               last_name = Some ''Smith''\<rparr>)"
    by (simp add: service_defs store_defs example_defs)
  have l: "fst (listAllUsers env0 alice world1)
       = Inr [\<lparr>user_id = ''u3'', email = ''c@x.com'', first_name = Some ''Carol'',
               last_name = Some ''Jones'', password = ''h:Passw0rd!''\<rparr>]"
    by (simp add: service_defs store_defs example_defs)
  have d: "fst (deleteUser env0 ''u3'' alice world1)
       = Inr (''User deleted!'',
              \<lparr>user_id = ''u3'', email = ''c@x.com'', first_name = Some ''Carol'',
               last_name = Some ''Jones'', password = ''h:Passw0rd!''\<rparr>)"
    by (simp add: service_defs store_defs example_defs)
  note t = password_filtered_only_by_profile_and_update [where e = env0 and p = carol
      and w = world1 and i = "''u3''" and d = carol_moves and req = alice
      and rp = "\<lparr>user_id = ''u3'', email = ''c@x.com'', first_name = Some ''Carol'',
                 last_name = Some ''Jones''\<rparr>"
      and ru = "(''User updated!'',
                \<lparr>user_id = ''u3'', email = ''carol@x.com'', first_name = Some ''Carol'',
                 last_name = Some ''Smith''\<rparr>)"
      and us = "[\<lparr>user_id = ''u3'', email = ''c@x.com'', first_name = Some ''Carol'',
                  last_name = Some ''Jones'', password = ''h:Passw0rd!''\<rparr>]"
      and rd = "(''User deleted!'',
                \<lparr>user_id = ''u3'', email = ''c@x.com'', first_name = Some ''Carol'',
                 last_name = Some ''Jones'', password = ''h:Passw0rd!''\<rparr>)"]
  show ?thesis
    using t g u l d by simp
qed

end
